theory Spec2Isabelle
  imports Complex_Main "HOL-Library.Sublist"
begin

section \<open>Values shared by the modules\<close>

text \<open>
  An ECMAScript number is modelled as an exact real: the properties below concern the
  data flow of the counts and percentages, not IEEE rounding, so \<open>NaN\<close>, the infinities and rounding
  are outside the model. A field that the code guards with \<open>== null\<close>, \<open>??\<close>, \<open>||\<close> or a
  truthiness test is an \<open>option\<close>: \<open>None\<close> stands for both \<open>null\<close> and \<open>undefined\<close>.
\<close>

type_synonym number = real

text \<open>
  A thrown value: an \<open>Error\<close> object with its \<open>message\<close>, or any other value, kept as
  what \<open>String(err)\<close> yields for it.
\<close>

datatype thrown = ErrorObj string | OtherValue string

text \<open>\<open>err instanceof Error ? err.message : String(err)\<close> (minimax.ts, line 222).\<close>

fun message_of :: "thrown \<Rightarrow> string" where
  "message_of (ErrorObj m) = m"
| "message_of (OtherValue s) = s"

subsection \<open>types.ts\<close>

record QueryResult =
  success :: bool
  "output" :: "string option"
  error :: "string option"

definition HIGH_USAGE_THRESHOLD :: number where
  "HIGH_USAGE_THRESHOLD = 80"

definition REQUEST_TIMEOUT_MS :: number where
  "REQUEST_TIMEOUT_MS = 10000"

section \<open>Collaborators that minimax.ts imports\<close>

text \<open>
  The string table \<open>t\<close> of i18n.ts and the helpers of utils.ts are not among the modelled
  sources, so the functions below take them as parameters: one field for each member
  that minimax.ts uses, with the type of its use.
\<close>

record i18n =
  t_account :: string
  t_noQuotaData :: string
  t_minimaxPromptLimit :: string
  t_remaining :: "number \<Rightarrow> string"
  t_used :: string
  t_resetIn :: "string \<Rightarrow> string"
  t_limitReached :: string
  t_minimaxApiError :: "number \<Rightarrow> string \<Rightarrow> string"
  t_minimaxConfigRequired :: string

record utils =
  formatDuration :: "number \<Rightarrow> string"
  createProgressBar :: "number \<Rightarrow> string"
  calcRemainPercent :: "number \<Rightarrow> number"
  maskString :: "string \<Rightarrow> nat \<Rightarrow> string"

text \<open>
  Modelled from the spec: \<open>calcRemainPercent\<close> of utils.ts, which is not among the
  sources. The spec gives the remaining percentage as \<open>100 - percentage\<close>, a number in
  \<open>0..100\<close>, "clamped to [0, 100]".
\<close>

definition calcRemainPercent_spec :: "number \<Rightarrow> number" where
  "calcRemainPercent_spec usedPercent = max 0 (min 100 (100 - usedPercent))"

section \<open>The world around one query\<close>

record request =
  url :: string
  http_method :: string
  headers :: "(string \<times> string) list"

record base_resp_t =
  status_code :: number
  status_msg :: "string option"

record quota_data =
  plan_name :: "string option"
  total_prompts :: "number option"
  used_prompts :: "number option"
  remaining_prompts :: "number option"
  next_reset_time :: "number option"
  usage_percentage :: "number option"

record MiniMaxRemainsResponse =
  base_resp :: base_resp_t
  data :: "quota_data option"

text \<open>
  What \<open>fetchWithTimeout\<close> resolves to: the \<open>ok\<close> flag and \<open>status\<close> of the response, and
  what \<open>response.text()\<close> and \<open>response.json()\<close> would give, each of which may reject.
\<close>

record response =
  ok :: bool
  status :: number
  text_body :: "thrown + string"
  json_body :: "thrown + MiniMaxRemainsResponse"

text \<open>
  What \<open>JSON.parse\<close> returns for the credential file, as far as \<open>config.session\<close> reads
  it: the literal \<open>null\<close>, on which the property access throws a \<open>TypeError\<close>, or any
  other value with its \<open>session\<close> property (absent, or a string as
  \<open>MiniMaxSessionConfig\<close> declares it).
\<close>

datatype parsed_config = JsonNull | JsonValue "string option"

record world =
  os_homedir :: "thrown + string"
  path_join :: "string \<Rightarrow> string \<Rightarrow> string"
  fs_readFile :: "string \<Rightarrow> thrown + string"
  json_parse :: "string \<Rightarrow> thrown + parsed_config"
  net_fetch :: "request \<Rightarrow> thrown + response"
  date_now :: number
  number_toString :: "number \<Rightarrow> string"

text \<open>
  \<open>os_homedir\<close> is \<open>homedir()\<close> of the module \<open>os\<close>, which throws when the process
  has no home directory to report; \<open>path_join\<close> is \<open>join\<close> of the module \<open>path\<close>, which
  returns for every pair of strings and is left as the runtime has it; \<open>fs_readFile\<close> is
  \<open>readFile(path, "utf-8")\<close>, \<open>net_fetch\<close> is \<open>fetchWithTimeout\<close> as the network answers
  it, \<open>date_now\<close> is \<open>Date.now()\<close>, and \<open>number_toString\<close> is the conversion that a
  template literal applies to a number. \<open>Inl\<close> is a rejection or a throw.
\<close>

section \<open>minimax.ts\<close>

definition MINIMAX_QUOTA_URL :: string where
  "MINIMAX_QUOTA_URL = ''https://platform.minimaxi.io/v1/api/openplatform/coding_plan/remains''"

subsection \<open>loadMiniMaxSession\<close>

text \<open>The body of the \<open>try\<close> block, lines 82 to 84; \<open>x || null\<close> maps the empty string to \<open>null\<close>.\<close>

definition loadMiniMaxSession_try :: "world \<Rightarrow> string \<Rightarrow> thrown + string option" where
  "loadMiniMaxSession_try w path =
     (case fs_readFile w path of
        Inl e \<Rightarrow> Inl e
      | Inr content \<Rightarrow>
          (case json_parse w content of
             Inl e \<Rightarrow> Inl e
           | Inr config \<Rightarrow>
               (case config of
                  JsonNull \<Rightarrow> Inl (ErrorObj ''TypeError'')
                | JsonValue session \<Rightarrow>
                    Inr (case session of
                           None \<Rightarrow> None
                         | Some s \<Rightarrow> if s = [] then None else Some s))))"

text \<open>
  Line 79, which stands before the \<open>try\<close>: what \<open>homedir()\<close> throws is not caught by
  the \<open>catch\<close> of line 85 and rejects the promise of \<open>loadMiniMaxSession\<close>.
\<close>

definition configPath :: "world \<Rightarrow> thrown + string" where
  "configPath w =
     (case os_homedir w of
        Inl e \<Rightarrow> Inl e
      | Inr home \<Rightarrow> Inr (path_join w home ''.config/opencode/minimax-session.json''))"

definition loadMiniMaxSession :: "world \<Rightarrow> thrown + string option" where
  "loadMiniMaxSession w =
     (case configPath w of
        Inl e \<Rightarrow> Inl e
      | Inr path \<Rightarrow>
          (case loadMiniMaxSession_try w path of
             Inl e \<Rightarrow> Inr None
           | Inr session \<Rightarrow> Inr session))"

subsection \<open>fetchMiniMaxUsage\<close>

definition quota_request :: "string \<Rightarrow> request" where
  "quota_request session =
     \<lparr> url = MINIMAX_QUOTA_URL,
       http_method = ''GET'',
       headers = [(''Cookie'', ''HERTZ-SESSION='' @ session),
                  (''Content-Type'', ''application/json''),
                  (''User-Agent'', ''OpenCode-Status-Plugin/1.0'')] \<rparr>"

text \<open>
  The result is paired with the requests handed to \<open>fetchWithTimeout\<close>, in order, so that
  the network calls made can be counted.
\<close>

definition fetchMiniMaxUsage ::
  "i18n \<Rightarrow> world \<Rightarrow> string \<Rightarrow> (thrown + MiniMaxRemainsResponse) \<times> request list" where
  "fetchMiniMaxUsage t w session =
     (let req = quota_request session
      in ((case net_fetch w req of
             Inl e \<Rightarrow> Inl e
           | Inr response \<Rightarrow>
               if \<not> ok response then
                 (case text_body response of
                    Inl e \<Rightarrow> Inl e
                  | Inr errorText \<Rightarrow>
                      Inl (ErrorObj (t_minimaxApiError t (status response) errorText)))
               else
                 (case json_body response of
                    Inl e \<Rightarrow> Inl e
                  | Inr d \<Rightarrow>
                      if status_code (base_resp d) \<noteq> 0 then
                        Inl (ErrorObj (t_minimaxApiError t (status_code (base_resp d))
                               (case status_msg (base_resp d) of
                                  None \<Rightarrow> ''Unknown error''
                                | Some m \<Rightarrow> if m = [] then ''Unknown error'' else m)))
                      else Inr d)),
          [req]))"

subsection \<open>formatMiniMaxUsage\<close>

text \<open>\<open>lines.join("\n")\<close>.\<close>

fun join :: "string \<Rightarrow> string list \<Rightarrow> string" where
  "join sep [] = []"
| "join sep [x] = x"
| "join sep (x # y # ys) = x @ sep @ join sep (y # ys)"

definition newline :: string where
  "newline = [CHR 0x0A]"

text \<open>
  The local constants of lines 157 to 162, as functions of \<open>d\<close>. The constant
  \<open>remaining\<close> of line 159 is computed and not used by the lines that follow. The
  difference, the quotient and the product are exact here, where the code rounds each
  to a double: with 55 used of 100 the code has 55.00000000000001 where
  \<open>usagePercent_of\<close> is 55. What is proved below of \<open>usagePercent_of\<close> is which branch
  gives it and what the report does with it, and no equation for the value of the
  quotient; the examples use counts on which the two agree.
\<close>

definition total_of :: "quota_data \<Rightarrow> number" where
  "total_of d = (case total_prompts d of Some x \<Rightarrow> x | None \<Rightarrow> 0)"

definition used_of :: "quota_data \<Rightarrow> number" where
  "used_of d =
     (case used_prompts d of
        Some x \<Rightarrow> x
      | None \<Rightarrow> total_of d - (case remaining_prompts d of Some r \<Rightarrow> r | None \<Rightarrow> total_of d))"

definition remaining_of :: "quota_data \<Rightarrow> number" where
  "remaining_of d =
     (case remaining_prompts d of Some r \<Rightarrow> r | None \<Rightarrow> total_of d - used_of d)"

definition usagePercent_of :: "quota_data \<Rightarrow> number" where
  "usagePercent_of d =
     (case usage_percentage d of
        Some p \<Rightarrow> p
      | None \<Rightarrow> if total_of d > 0 then (used_of d / total_of d) * 100 else 0)"

definition remainPercent_of :: "utils \<Rightarrow> quota_data \<Rightarrow> number" where
  "remainPercent_of u d = calcRemainPercent u (usagePercent_of d)"

text \<open>\<open>Math.max(0, Math.floor((d.next_reset_time - Date.now()) / 1000))\<close>, lines 172 to 175.\<close>

definition resetSeconds :: "number \<Rightarrow> number \<Rightarrow> number" where
  "resetSeconds next_reset now = max 0 (of_int \<lfloor>(next_reset - now) / 1000\<rfloor>)"

text \<open>Lines 143 to 147: the title line.\<close>

definition planLabel_of :: "quota_data option \<Rightarrow> string" where
  "planLabel_of d =
     (case d of
        None \<Rightarrow> ''Coding Plan''
      | Some d' \<Rightarrow>
          (case plan_name d' of
             None \<Rightarrow> ''Coding Plan''
           | Some p \<Rightarrow> if p = [] then ''Coding Plan'' else ''Coding Plan - '' @ p))"

definition header_line :: "i18n \<Rightarrow> utils \<Rightarrow> MiniMaxRemainsResponse \<Rightarrow> string \<Rightarrow> string" where
  "header_line t u resp session =
     t_account t @ ''        '' @ maskString u session 8 @ '' ('' @ planLabel_of (data resp) @ '')''"

text \<open>The array \<open>lines\<close> when the function returns, and the function itself.\<close>

definition formatMiniMaxUsage_lines ::
  "i18n \<Rightarrow> utils \<Rightarrow> world \<Rightarrow> MiniMaxRemainsResponse \<Rightarrow> string \<Rightarrow> string list" where
  "formatMiniMaxUsage_lines t u w resp session =
     (let lines0 = [header_line t u resp session, '''']
      in case data resp of
           None \<Rightarrow> lines0 @ [t_noQuotaData t]
         | Some d \<Rightarrow>
             if total_prompts d = None \<and> remaining_prompts d = None then
               lines0 @ [t_noQuotaData t]
             else
               (let total = total_of d;
                    used = used_of d;
                    usagePercent = usagePercent_of d;
                    remainPercent = remainPercent_of u d;
                    progressBar = createProgressBar u remainPercent;
                    lines1 = lines0 @
                      [t_minimaxPromptLimit t,
                       progressBar @ '' '' @ t_remaining t remainPercent,
                       t_used t @ '': '' @ number_toString w used @ '' / ''
                         @ number_toString w total @ '' prompts''];
                    lines2 =
                      (case next_reset_time d of
                         None \<Rightarrow> lines1
                       | Some nrt \<Rightarrow>
                           if nrt \<noteq> 0 then
                             lines1 @ [t_resetIn t (formatDuration u (resetSeconds nrt (date_now w)))]
                           else lines1)
                in if usagePercent \<ge> HIGH_USAGE_THRESHOLD then
                     lines2 @ ['''', t_limitReached t]
                   else lines2))"

definition formatMiniMaxUsage ::
  "i18n \<Rightarrow> utils \<Rightarrow> world \<Rightarrow> MiniMaxRemainsResponse \<Rightarrow> string \<Rightarrow> string" where
  "formatMiniMaxUsage t u w resp session =
     join newline (formatMiniMaxUsage_lines t u w resp session)"

subsection \<open>queryMiniMaxUsage\<close>

text \<open>
  The result is \<open>Inl\<close> for a rejected promise, \<open>Inr None\<close> for \<open>null\<close> and \<open>Inr (Some r)\<close>
  for a \<open>QueryResult\<close>, paired with the requests handed to \<open>fetchWithTimeout\<close>. The
  \<open>await\<close> of line 204 stands before the \<open>try\<close> of line 213, so a rejection of
  \<open>loadMiniMaxSession\<close> rejects the promise of \<open>queryMiniMaxUsage\<close>.
\<close>

definition queryMiniMaxUsage ::
  "i18n \<Rightarrow> utils \<Rightarrow> world \<Rightarrow> 'a option \<Rightarrow> (thrown + QueryResult option) \<times> request list" where
  "queryMiniMaxUsage t u w authData =
     (case loadMiniMaxSession w of
        Inl e \<Rightarrow> (Inl e, [])
      | Inr None \<Rightarrow>
          (Inr (Some \<lparr> success = False, output = None,
                       error = Some (t_minimaxConfigRequired t) \<rparr>), [])
      | Inr (Some session) \<Rightarrow>
          if session = [] then
            (Inr (Some \<lparr> success = False, output = None,
                         error = Some (t_minimaxConfigRequired t) \<rparr>), [])
          else
            (case fetchMiniMaxUsage t w session of
               (Inr usage, calls) \<Rightarrow>
                 (Inr (Some \<lparr> success = True,
                              output = Some (formatMiniMaxUsage t u w usage session),
                              error = None \<rparr>), calls)
             | (Inl err, calls) \<Rightarrow>
                 (Inr (Some \<lparr> success = False, output = None,
                              error = Some (message_of err) \<rparr>), calls)))"

section \<open>Sample collaborators and worlds\<close>

text \<open>
  A concrete string table, concrete helpers and a family of worlds, on which the model
  is evaluated in the examples below. They are stand-ins chosen here and not the
  tables of i18n.ts or the helpers of utils.ts; \<open>sample_toString\<close> prints the integer
  part of a number in decimal, which is what a template literal gives for the whole
  numbers used in the examples.
\<close>

fun show_nat :: "nat \<Rightarrow> string" where
  "show_nat n =
     (if n < 10 then [''0123456789'' ! n]
      else show_nat (n div 10) @ [''0123456789'' ! (n mod 10)])"

definition show_int :: "int \<Rightarrow> string" where
  "show_int i = (if i < 0 then ''-'' @ show_nat (nat (- i)) else show_nat (nat i))"

definition sample_toString :: "number \<Rightarrow> string" where
  "sample_toString x = show_int \<lfloor>x\<rfloor>"

definition sample_t :: i18n where
  "sample_t =
     \<lparr> t_account = ''Account:'',
       t_noQuotaData = ''No quota data'',
       t_minimaxPromptLimit = ''Prompt limit'',
       t_remaining = (\<lambda>p. ''Remaining '' @ sample_toString p @ ''%''),
       t_used = ''Used'',
       t_resetIn = (\<lambda>d. ''Resets in '' @ d),
       t_limitReached = ''High usage'',
       t_minimaxApiError = (\<lambda>c m. ''MiniMax API error ('' @ sample_toString c @ ''): '' @ m),
       t_minimaxConfigRequired = ''MiniMax session required'' \<rparr>"

definition sample_utils :: utils where
  "sample_utils =
     \<lparr> formatDuration = (\<lambda>s. sample_toString s @ ''s''),
       createProgressBar =
         (\<lambda>p. replicate (nat \<lfloor>p / 10\<rfloor>) (CHR ''#'')
                @ replicate (10 - nat \<lfloor>p / 10\<rfloor>) (CHR ''-'')),
       calcRemainPercent = calcRemainPercent_spec,
       maskString = (\<lambda>s n. take 4 s @ ''****'') \<rparr>"

text \<open>
  A world in which \<open>homedir()\<close> returns, reading the credential file gives \<open>file\<close>,
  parsing it gives \<open>parsed\<close> and the network answers every request with \<open>net\<close>.
\<close>

definition sample_world ::
  "(thrown + string) \<Rightarrow> (thrown + parsed_config) \<Rightarrow> (thrown + response) \<Rightarrow> world" where
  "sample_world file parsed net =
     \<lparr> os_homedir = Inr ''/home/user'',
       path_join = (\<lambda>a b. a @ ''/'' @ b),
       fs_readFile = (\<lambda>p. file),
       json_parse = (\<lambda>c. parsed),
       net_fetch = (\<lambda>r. net),
       date_now = 1700000000000,
       number_toString = sample_toString \<rparr>"

text \<open>A data payload with every field absent, and an envelope with status code 0 around a payload.\<close>

definition sample_data :: quota_data where
  "sample_data =
     \<lparr> plan_name = None, total_prompts = None, used_prompts = None,
       remaining_prompts = None, next_reset_time = None, usage_percentage = None \<rparr>"

definition sample_resp :: "quota_data option \<Rightarrow> MiniMaxRemainsResponse" where
  "sample_resp d =
     \<lparr> base_resp = \<lparr> status_code = 0, status_msg = Some ''success'' \<rparr>, data = d \<rparr>"

text \<open>
  The data payloads and responses of the examples: a payload with only the remaining
  count, one with only an explicit percentage, one with all counts and a reset time
  one hour after \<open>date_now\<close> of the sample worlds, and one with counts and an explicit
  percentage that disagrees with them.
\<close>

definition data_remaining_only :: quota_data where
  "data_remaining_only = sample_data \<lparr> remaining_prompts := Some 5 \<rparr>"

definition data_percentage_only :: quota_data where
  "data_percentage_only = sample_data \<lparr> usage_percentage := Some 50 \<rparr>"

definition data_high_usage :: quota_data where
  "data_high_usage =
     \<lparr> plan_name = Some ''Plus'', total_prompts = Some 100, used_prompts = Some 85,
       remaining_prompts = Some 15, next_reset_time = Some 1700003600000,
       usage_percentage = None \<rparr>"

definition data_explicit_percentage :: quota_data where
  "data_explicit_percentage =
     \<lparr> plan_name = None, total_prompts = Some 100, used_prompts = Some 85,
       remaining_prompts = Some 15, next_reset_time = None,
       usage_percentage = Some 40 \<rparr>"

definition response_ok :: response where
  "response_ok =
     \<lparr> ok = True, status = 200, text_body = Inr ''unused'',
       json_body = Inr (sample_resp (Some data_high_usage)) \<rparr>"

definition response_not_json :: response where
  "response_not_json =
     \<lparr> ok = True, status = 200, text_body = Inr ''<html>'',
       json_body = Inl (ErrorObj ''Unexpected token'') \<rparr>"

definition response_invalid_session :: response where
  "response_invalid_session =
     \<lparr> ok = True, status = 200, text_body = Inr ''unused'',
       json_body = Inr \<lparr> base_resp = \<lparr> status_code = 1004,
                                        status_msg = Some ''invalid session'' \<rparr>,
                          data = None \<rparr> \<rparr>"

text \<open>
  The worlds of the examples: one that is never asked anything, one in which
  \<open>homedir()\<close> throws while the file, the session and the network are in order, one
  without a credential file, one whose credential file is not JSON, one whose credential file
  holds an empty session, and four with a session and a network that answers with a
  usable envelope, rejects with an \<open>Error\<close> whose message is empty, answers with a
  body that is not JSON, or answers with an envelope that reports an error.
\<close>

definition world_idle :: world where
  "world_idle =
     sample_world (Inl (ErrorObj ''unused'')) (Inl (ErrorObj ''unused''))
       (Inl (ErrorObj ''unused''))"

definition world_no_home :: world where
  "world_no_home =
     (sample_world (Inr ''session file'') (Inr (JsonValue (Some ''abcdefghijkl'')))
        (Inr response_ok))
     \<lparr> os_homedir := Inl (ErrorObj ''homedir: no home directory'') \<rparr>"



definition world_empty_session :: world where
  "world_empty_session =
     sample_world (Inr ''session file'') (Inr (JsonValue (Some [])))
       (Inl (ErrorObj ''unused''))"

definition world_ok :: world where
  "world_ok =
     sample_world (Inr ''session file'') (Inr (JsonValue (Some ''abcdefghijkl'')))
       (Inr response_ok)"

definition world_empty_message :: world where
  "world_empty_message =
     sample_world (Inr ''session file'') (Inr (JsonValue (Some ''abcdefghijkl'')))
       (Inl (ErrorObj []))"

definition world_not_json :: world where
  "world_not_json =
     sample_world (Inr ''session file'') (Inr (JsonValue (Some ''abcdefghijkl'')))
       (Inr response_not_json)"

definition world_invalid_session :: world where
  "world_invalid_session =
     sample_world (Inr ''session file'') (Inr (JsonValue (Some ''abcdefghijkl'')))
       (Inr response_invalid_session)"

section \<open>The derivation rules as the specification words them\<close>

text \<open>
  Rules 2 and 3 of the normalizer's precedence list derive a percentage from the total
  and used counts, or from the total and remaining counts. This predicate follows those
  words; the guard of \<open>formatMiniMaxUsage\<close> (line 151) is compared with it below.
\<close>

definition spec_percentage_derivable :: "quota_data \<Rightarrow> bool" where
  "spec_percentage_derivable d \<longleftrightarrow>
     total_prompts d \<noteq> None \<and> (used_prompts d \<noteq> None \<or> remaining_prompts d \<noteq> None)"

section \<open>Loading the session\<close>

lemma sample_world_fields:
  "configPath (sample_world f p n) = Inr ''/home/user/.config/opencode/minimax-session.json''"
  "fs_readFile (sample_world f p n) x = f"
  "json_parse (sample_world f p n) c = p"
  "net_fetch (sample_world f p n) r = n"
  "date_now (sample_world f p n) = 1700000000000"
  "number_toString (sample_world f p n) = sample_toString"
  by (simp_all add: sample_world_def configPath_def)

lemma configPath_homedir:
  "(configPath w = Inl e) = (os_homedir w = Inl e)"
  "(\<exists>path. configPath w = Inr path) = (\<exists>home. os_homedir w = Inr home)"
  by (auto simp: configPath_def split: sum.splits)

lemma load_homedir_throws:
  "os_homedir w = Inl e \<Longrightarrow> loadMiniMaxSession w = Inl e"
  by (simp add: loadMiniMaxSession_def configPath_def)

lemma loadMiniMaxSession_rejects_iff:
  "(loadMiniMaxSession w = Inl e) = (os_homedir w = Inl e)"
  by (auto simp: loadMiniMaxSession_def configPath_def split: sum.splits)

lemma loadMiniMaxSession_returns:
  "configPath w = Inr path \<Longrightarrow> \<exists>s. loadMiniMaxSession w = Inr s"
  by (simp add: loadMiniMaxSession_def split: sum.splits)

lemma load_read_fails:
  "configPath w = Inr path \<Longrightarrow> fs_readFile w path = Inl e \<Longrightarrow>
   loadMiniMaxSession w = Inr None"
  by (simp add: loadMiniMaxSession_def loadMiniMaxSession_try_def)


lemma load_parsed:
  "configPath w = Inr path \<Longrightarrow> fs_readFile w path = Inr content \<Longrightarrow>
   json_parse w content = Inr (JsonValue s) \<Longrightarrow>
   loadMiniMaxSession w =
     Inr (case s of None \<Rightarrow> None | Some v \<Rightarrow> if v = [] then None else Some v)"
  by (simp add: loadMiniMaxSession_def loadMiniMaxSession_try_def)

lemma loadMiniMaxSession_nonempty:
  "loadMiniMaxSession w = Inr (Some s) \<Longrightarrow> s \<noteq> []"
  by (auto simp: loadMiniMaxSession_def loadMiniMaxSession_try_def
           split: sum.splits parsed_config.splits option.splits if_splits)

lemma load_sample_session:
  "s \<noteq> [] \<Longrightarrow>
   loadMiniMaxSession (sample_world (Inr c) (Inr (JsonValue (Some s))) n) = Inr (Some s)"
  by (simp add: load_parsed[OF sample_world_fields(1)] sample_world_fields)

section \<open>The query, by the outcome of its steps\<close>

lemma query_no_session:
  "loadMiniMaxSession w = Inr None \<Longrightarrow>
   queryMiniMaxUsage t u w authData =
     (Inr (Some \<lparr> success = False, output = None,
                  error = Some (t_minimaxConfigRequired t) \<rparr>), [])"
  by (simp add: queryMiniMaxUsage_def)

lemma query_homedir_throws:
  "os_homedir w = Inl e \<Longrightarrow> queryMiniMaxUsage t u w authData = (Inl e, [])"
  by (simp add: queryMiniMaxUsage_def load_homedir_throws)

lemma query_with_session:
  assumes "loadMiniMaxSession w = Inr (Some session)"
  shows "fst (queryMiniMaxUsage t u w authData) =
           (case fst (fetchMiniMaxUsage t w session) of
              Inl err \<Rightarrow> Inr (Some \<lparr> success = False, output = None,
                                      error = Some (message_of err) \<rparr>)
            | Inr usage \<Rightarrow> Inr (Some \<lparr> success = True,
                                        output = Some (formatMiniMaxUsage t u w usage session),
                                        error = None \<rparr>))"
  using assms loadMiniMaxSession_nonempty[OF assms]
  by (cases "fetchMiniMaxUsage t w session")
     (simp add: queryMiniMaxUsage_def split: sum.splits)

lemma fetch_transport_throws:
  "net_fetch w (quota_request session) = Inl e \<Longrightarrow>
   fst (fetchMiniMaxUsage t w session) = Inl e"
  by (simp add: fetchMiniMaxUsage_def)

lemma fetch_not_ok:
  "net_fetch w (quota_request session) = Inr response \<Longrightarrow> \<not> ok response \<Longrightarrow>
   fst (fetchMiniMaxUsage t w session) =
     (case text_body response of
        Inl e \<Rightarrow> Inl e
      | Inr errorText \<Rightarrow> Inl (ErrorObj (t_minimaxApiError t (status response) errorText)))"
  by (simp add: fetchMiniMaxUsage_def)

lemma fetch_body_throws:
  "net_fetch w (quota_request session) = Inr response \<Longrightarrow> ok response \<Longrightarrow>
   json_body response = Inl e \<Longrightarrow>
   fst (fetchMiniMaxUsage t w session) = Inl e"
  by (simp add: fetchMiniMaxUsage_def)

lemma fetch_envelope:
  "net_fetch w (quota_request session) = Inr response \<Longrightarrow> ok response \<Longrightarrow>
   json_body response = Inr envelope \<Longrightarrow>
   fst (fetchMiniMaxUsage t w session) =
     (if status_code (base_resp envelope) \<noteq> 0 then
        Inl (ErrorObj (t_minimaxApiError t (status_code (base_resp envelope))
               (case status_msg (base_resp envelope) of
                  None \<Rightarrow> ''Unknown error''
                | Some m \<Rightarrow> if m = [] then ''Unknown error'' else m)))
      else Inr envelope)"
  by (simp add: fetchMiniMaxUsage_def)

lemma formatMiniMaxUsage_lines_start:
  "\<exists>rest. formatMiniMaxUsage_lines t u w resp session
            = header_line t u resp session # [] # rest"
  by (simp add: formatMiniMaxUsage_lines_def Let_def split: option.splits)

lemma header_line_nonempty: "header_line t u resp session \<noteq> []"
  by (simp add: header_line_def)

lemma formatMiniMaxUsage_nonempty: "formatMiniMaxUsage t u w resp session \<noteq> []"
proof -
  obtain rest where
    "formatMiniMaxUsage_lines t u w resp session = header_line t u resp session # [] # rest"
    using formatMiniMaxUsage_lines_start by blast
  then show ?thesis
    by (simp add: formatMiniMaxUsage_def header_line_nonempty)
qed

text \<open>The sample worlds with a session, evaluated up to the result of the fetch.\<close>

lemma world_ok_steps:
  "loadMiniMaxSession world_ok = Inr (Some ''abcdefghijkl'')"
  "net_fetch world_ok (quota_request ''abcdefghijkl'') = Inr response_ok"
  "fst (fetchMiniMaxUsage sample_t world_ok ''abcdefghijkl'')
     = Inr (sample_resp (Some data_high_usage))"
proof -
  show l: "loadMiniMaxSession world_ok = Inr (Some ''abcdefghijkl'')"
    unfolding world_ok_def by (rule load_sample_session) simp
  show n: "net_fetch world_ok (quota_request ''abcdefghijkl'') = Inr response_ok"
    by (simp add: world_ok_def sample_world_fields)
  have "ok response_ok" "json_body response_ok = Inr (sample_resp (Some data_high_usage))"
    by (simp_all add: response_ok_def)
  from fetch_envelope[OF n this, of sample_t]
  show "fst (fetchMiniMaxUsage sample_t world_ok ''abcdefghijkl'')
          = Inr (sample_resp (Some data_high_usage))"
    by (simp add: sample_resp_def)
qed

lemma world_not_json_steps:
  "loadMiniMaxSession world_not_json = Inr (Some ''abcdefghijkl'')"
  "net_fetch world_not_json (quota_request ''abcdefghijkl'') = Inr response_not_json"
  "fst (fetchMiniMaxUsage sample_t world_not_json ''abcdefghijkl'')
     = Inl (ErrorObj ''Unexpected token'')"
proof -
  show "loadMiniMaxSession world_not_json = Inr (Some ''abcdefghijkl'')"
    unfolding world_not_json_def by (rule load_sample_session) simp
  show n: "net_fetch world_not_json (quota_request ''abcdefghijkl'') = Inr response_not_json"
    by (simp add: world_not_json_def sample_world_fields)
  have "ok response_not_json" "json_body response_not_json = Inl (ErrorObj ''Unexpected token'')"
    by (simp_all add: response_not_json_def)
  from fetch_body_throws[OF n this]
  show "fst (fetchMiniMaxUsage sample_t world_not_json ''abcdefghijkl'')
          = Inl (ErrorObj ''Unexpected token'')" .
qed

lemma world_empty_message_steps:
  "loadMiniMaxSession world_empty_message = Inr (Some ''abcdefghijkl'')"
  "fst (fetchMiniMaxUsage sample_t world_empty_message ''abcdefghijkl'') = Inl (ErrorObj [])"
proof -
  show "loadMiniMaxSession world_empty_message = Inr (Some ''abcdefghijkl'')"
    unfolding world_empty_message_def by (rule load_sample_session) simp
  have "net_fetch world_empty_message (quota_request ''abcdefghijkl'') = Inl (ErrorObj [])"
    by (simp add: world_empty_message_def sample_world_fields)
  then show "fst (fetchMiniMaxUsage sample_t world_empty_message ''abcdefghijkl'')
               = Inl (ErrorObj [])"
    by (rule fetch_transport_throws)
qed

lemma world_invalid_session_steps:
  "loadMiniMaxSession world_invalid_session = Inr (Some ''abcdefghijkl'')"
  "net_fetch world_invalid_session (quota_request ''abcdefghijkl'')
     = Inr response_invalid_session"
  by (simp_all add: world_invalid_session_def load_sample_session sample_world_fields)

lemma sample_toString_values:
  "sample_toString 100 = ''100''" "sample_toString (- 5) = ''-5''"
  "sample_toString 0 = ''0''" "sample_toString 85 = ''85''"
  "sample_toString 15 = ''15''" "sample_toString 60 = ''60''"
  "sample_toString 3600 = ''3600''" "sample_toString 1004 = ''1004''"
  by (simp_all add: sample_toString_def show_int_def)

lemma sample_template_embeds: "sublist x (t_minimaxApiError sample_t c x)"
proof -
  have "t_minimaxApiError sample_t c x = (''MiniMax API error ('' @ sample_toString c @ ''): '') @ x"
    by (simp add: sample_t_def)
  then show ?thesis by (simp only: sublist_append_leftI)
qed

section \<open>Whether the query returns a result\<close>

lemma queryMiniMaxUsage_rejects_iff:
  "(fst (queryMiniMaxUsage t u w authData) = Inl e) = (os_homedir w = Inl e)"
proof (cases "loadMiniMaxSession w")
  case (Inl e')
  then have "os_homedir w = Inl e'" by (simp add: loadMiniMaxSession_rejects_iff)
  then show ?thesis by (auto simp: query_homedir_throws)
next
  case (Inr s)
  then have n: "os_homedir w \<noteq> Inl e"
    using load_homedir_throws[of w e] by auto
  show ?thesis
  proof (cases s)
    case None
    with Inr n show ?thesis by (simp add: query_no_session)
  next
    case (Some session)
    with Inr have "loadMiniMaxSession w = Inr (Some session)" by simp
    with n show ?thesis by (simp add: query_with_session split: sum.splits)
  qed
qed

lemma queryMiniMaxUsage_never_null:
  "fst (queryMiniMaxUsage t u w authData) \<noteq> Inr None"
proof (cases "loadMiniMaxSession w")
  case (Inl e)
  then have "os_homedir w = Inl e" by (simp add: loadMiniMaxSession_rejects_iff)
  then show ?thesis by (simp add: query_homedir_throws)
next
  case (Inr s)
  show ?thesis
  proof (cases s)
    case None
    with Inr show ?thesis by (simp add: query_no_session)
  next
    case (Some session)
    with Inr have "loadMiniMaxSession w = Inr (Some session)" by simp
    then show ?thesis by (simp add: query_with_session split: sum.splits)
  qed
qed

lemma queryMiniMaxUsage_returns_object_iff:
  "(\<exists>r. fst (queryMiniMaxUsage t u w authData) = Inr (Some r))
     = (\<exists>home. os_homedir w = Inr home)"
proof (cases "os_homedir w")
  case (Inl e)
  then show ?thesis by (simp add: query_homedir_throws)
next
  case (Inr home)
  then have "\<And>e. fst (queryMiniMaxUsage t u w authData) \<noteq> Inl e"
    by (simp add: queryMiniMaxUsage_rejects_iff)
  moreover have "fst (queryMiniMaxUsage t u w authData) \<noteq> Inr None"
    by (rule queryMiniMaxUsage_never_null)
  ultimately have "\<exists>r. fst (queryMiniMaxUsage t u w authData) = Inr (Some r)"
    by (cases "fst (queryMiniMaxUsage t u w authData)") auto
  with Inr show ?thesis by simp
qed

text \<open>
  C3 asks that \<open>queryMiniMaxUsage\<close> return a \<open>QueryResult\<close> object whatever happens,
  throwing included. The code returns one, and never \<open>null\<close>, whenever \<open>homedir()\<close>
  returns, as the three lemmas above say; it does not where \<open>homedir()\<close> throws. The
  call of line 79 stands before the \<open>try\<close> of line 81 and the \<open>await\<close> of line 204
  before the \<open>try\<close> of line 213, so the promise of \<open>queryMiniMaxUsage\<close> rejects with
  what \<open>homedir()\<close> threw, although the credential file, the session in it and the
  network are in order, and no request is made.
\<close>

theorem homedir_throws_query_rejects:
  "os_homedir world_no_home = Inl (ErrorObj ''homedir: no home directory'')
   \<and> loadMiniMaxSession world_no_home = Inl (ErrorObj ''homedir: no home directory'')
   \<and> queryMiniMaxUsage sample_t sample_utils world_no_home (None :: unit option)
       = (Inl (ErrorObj ''homedir: no home directory''), [])"
proof -
  have h: "os_homedir world_no_home = Inl (ErrorObj ''homedir: no home directory'')"
    by (simp add: world_no_home_def)
  from h load_homedir_throws[OF h] query_homedir_throws[OF h] show ?thesis by simp
qed

section \<open>The shape of the result\<close>

text \<open>
  C4, as the code has it. A result with \<open>success\<close> true carries a non-empty \<open>output\<close> and
  no \<open>error\<close>. A result with \<open>success\<close> false carries no \<open>output\<close>, and its \<open>error\<close> is
  set, to the config-required message or to the message of what the fetch threw, as
  it is: the error string is non-empty when those messages are.
\<close>

theorem queryMiniMaxUsage_result_shape:
  assumes "fst (queryMiniMaxUsage t u w authData) = Inr (Some r)"
  shows "(success r \<longrightarrow> (\<exists>s. output r = Some s \<and> s \<noteq> []) \<and> error r = None)
       \<and> (\<not> success r \<longrightarrow>
            output r = None
            \<and> (error r = Some (t_minimaxConfigRequired t)
               \<or> (\<exists>session err. loadMiniMaxSession w = Inr (Some session)
                     \<and> fst (fetchMiniMaxUsage t w session) = Inl err
                     \<and> error r = Some (message_of err))))
       \<and> (\<not> success r \<and> t_minimaxConfigRequired t \<noteq> []
            \<and> (\<forall>session err. fst (fetchMiniMaxUsage t w session) = Inl err
                  \<longrightarrow> message_of err \<noteq> [])
          \<longrightarrow> (\<exists>e. error r = Some e \<and> e \<noteq> []))"
proof -
  have "\<And>e. fst (queryMiniMaxUsage t u w authData) \<noteq> Inl e"
    using assms by simp
  then have "\<And>e. loadMiniMaxSession w \<noteq> Inl e"
    by (simp add: queryMiniMaxUsage_rejects_iff loadMiniMaxSession_rejects_iff)
  then obtain s where s: "loadMiniMaxSession w = Inr s"
    by (cases "loadMiniMaxSession w") auto
  show ?thesis
  proof (cases s)
    case None
    with s assms show ?thesis
      by (auto simp: query_no_session)
  next
    case (Some session)
    with s have l: "loadMiniMaxSession w = Inr (Some session)" by simp
    show ?thesis
    proof (cases "fst (fetchMiniMaxUsage t w session)")
      case (Inl err)
      with assms l show ?thesis
        by (auto simp: query_with_session[OF l])
    next
      case (Inr usage)
      with assms l show ?thesis
        by (auto simp: query_with_session[OF l] formatMiniMaxUsage_nonempty)
    qed
  qed
qed

text \<open>
  The theorem at two worlds: the body of the response is not JSON, and the response
  carries a usable envelope.
\<close>

theorem queryMiniMaxUsage_result_shape_witness:
  "fst (queryMiniMaxUsage sample_t sample_utils world_not_json (None :: unit option))
     = Inr (Some \<lparr> success = False, output = None, error = Some ''Unexpected token'' \<rparr>)
   \<and> fst (queryMiniMaxUsage sample_t sample_utils world_ok (None :: unit option))
     = Inr (Some \<lparr> success = True,
                   output = Some (formatMiniMaxUsage sample_t sample_utils world_ok
                                    (sample_resp (Some data_high_usage)) ''abcdefghijkl''),
                   error = None \<rparr>)
   \<and> formatMiniMaxUsage sample_t sample_utils world_ok
        (sample_resp (Some data_high_usage)) ''abcdefghijkl'' \<noteq> []"
proof -
  have q1: "fst (queryMiniMaxUsage sample_t sample_utils world_not_json (None :: unit option))
     = Inr (Some \<lparr> success = False, output = None, error = Some ''Unexpected token'' \<rparr>)"
    by (simp add: query_with_session[OF world_not_json_steps(1)] world_not_json_steps(3))
  have q2: "fst (queryMiniMaxUsage sample_t sample_utils world_ok (None :: unit option))
     = Inr (Some \<lparr> success = True,
                   output = Some (formatMiniMaxUsage sample_t sample_utils world_ok
                                    (sample_resp (Some data_high_usage)) ''abcdefghijkl''),
                   error = None \<rparr>)"
    by (simp add: query_with_session[OF world_ok_steps(1)] world_ok_steps(3))
  from queryMiniMaxUsage_result_shape[OF q1] queryMiniMaxUsage_result_shape[OF q2] q1 q2
  show ?thesis by simp
qed

text \<open>
  C4 as stated fails where the transport rejects with an \<open>Error\<close> whose message is
  empty: the result has \<open>success\<close> false and the empty string as its \<open>error\<close>.
\<close>

theorem empty_error_message_counterexample:
  "fst (queryMiniMaxUsage sample_t sample_utils world_empty_message (None :: unit option))
     = Inr (Some \<lparr> success = False, output = None, error = Some [] \<rparr>)"
  by (simp add: query_with_session[OF world_empty_message_steps(1)]
        world_empty_message_steps(2))

section \<open>No credential, no network call\<close>



text \<open>
  C10. When the credential file, at the path of line 79, parses and its \<open>session\<close> is
  absent or the empty
  string, \<open>loadMiniMaxSession\<close> returns \<open>null\<close>, and \<open>queryMiniMaxUsage\<close> returns
  the same failure as without a credential file, having handed no request to
  \<open>fetchWithTimeout\<close>.
\<close>

theorem empty_session_treated_as_absent:
  assumes "configPath w = Inr path"
    and "fs_readFile w path = Inr content"
    and "json_parse w content = Inr (JsonValue s)"
    and "s = None \<or> s = Some []"
  shows "loadMiniMaxSession w = Inr None
         \<and> queryMiniMaxUsage t u w authData =
             (Inr (Some \<lparr> success = False, output = None,
                          error = Some (t_minimaxConfigRequired t) \<rparr>), [])
         \<and> queryMiniMaxUsage t u w authData
             = queryMiniMaxUsage t u (w \<lparr> fs_readFile := (\<lambda>p. Inl e) \<rparr>) authData"
proof -
  from assms(4) have "loadMiniMaxSession w = Inr None"
    by (auto simp: load_parsed[OF assms(1-3)])
  moreover have "configPath (w \<lparr> fs_readFile := (\<lambda>p. Inl e) \<rparr>) = Inr path"
    using assms(1) by (simp add: configPath_def split: sum.splits)
  then have "loadMiniMaxSession (w \<lparr> fs_readFile := (\<lambda>p. Inl e) \<rparr>) = Inr None"
    by (rule load_read_fails) simp
  ultimately show ?thesis by (simp add: query_no_session)
qed

theorem empty_session_witness:
  "configPath world_empty_session = Inr ''/home/user/.config/opencode/minimax-session.json''
   \<and> fs_readFile world_empty_session ''/home/user/.config/opencode/minimax-session.json''
      = Inr ''session file''
   \<and> json_parse world_empty_session ''session file'' = Inr (JsonValue (Some []))
   \<and> loadMiniMaxSession world_empty_session = Inr None
   \<and> queryMiniMaxUsage sample_t sample_utils world_empty_session (None :: unit option)
      = (Inr (Some \<lparr> success = False, output = None,
                     error = Some ''MiniMax session required'' \<rparr>), [])"
proof -
  let ?path = "''/home/user/.config/opencode/minimax-session.json''"
  have p: "configPath world_empty_session = Inr ?path"
    and a: "fs_readFile world_empty_session ?path = Inr ''session file''"
    and b: "json_parse world_empty_session ''session file'' = Inr (JsonValue (Some []))"
    by (simp_all add: world_empty_session_def sample_world_fields)
  have c: "t_minimaxConfigRequired sample_t = ''MiniMax session required''"
    by (simp add: sample_t_def)
  have d: "Some [] = None \<or> Some ([] :: string) = Some []" by simp
  from empty_session_treated_as_absent[OF p a b d,
         of sample_t sample_utils "None :: unit option"]
    p a b c
  show ?thesis by simp
qed

section \<open>When the fetch raises\<close>

text \<open>
  C9, as the code has it. With a session loaded: a response whose status is not a
  success raises an \<open>Error\<close> built by \<open>t.minimaxApiError\<close> from the HTTP status and the
  raw body; an envelope whose \<open>status_code\<close> is not zero raises one built from that code
  and the \<open>status_msg\<close> (or "Unknown error" when the message is absent or empty); the
  query then returns the failure with that message, which contains the status message
  when the template embeds its argument. The fetch raises as well when
  \<open>fetchWithTimeout\<close>, \<open>response.text()\<close> or \<open>response.json()\<close> throws, and it returns
  the envelope, and the query succeeds, exactly when the transport answers with a
  success status, the body decodes and the envelope's \<open>status_code\<close> is zero.
\<close>

theorem fetchMiniMaxUsage_raises:
  assumes "loadMiniMaxSession w = Inr (Some session)"
  shows "(net_fetch w (quota_request session) = Inr response \<and> \<not> ok response
            \<and> text_body response = Inr body
          \<longrightarrow> fst (fetchMiniMaxUsage t w session)
                = Inl (ErrorObj (t_minimaxApiError t (status response) body))
              \<and> fst (queryMiniMaxUsage t u w authData)
                = Inr (Some \<lparr> success = False, output = None,
                              error = Some (t_minimaxApiError t (status response) body) \<rparr>))
       \<and> (net_fetch w (quota_request session) = Inr response \<and> ok response
            \<and> json_body response = Inr envelope \<and> status_code (base_resp envelope) \<noteq> 0
            \<and> status_msg (base_resp envelope) = Some m \<and> m \<noteq> []
          \<longrightarrow> fst (fetchMiniMaxUsage t w session)
                = Inl (ErrorObj (t_minimaxApiError t (status_code (base_resp envelope)) m))
              \<and> fst (queryMiniMaxUsage t u w authData)
                = Inr (Some \<lparr> success = False, output = None,
                              error = Some (t_minimaxApiError t
                                              (status_code (base_resp envelope)) m) \<rparr>)
              \<and> ((\<forall>c x. sublist x (t_minimaxApiError t c x))
                  \<longrightarrow> sublist m (t_minimaxApiError t (status_code (base_resp envelope)) m)))
       \<and> (net_fetch w (quota_request session) = Inr response \<and> ok response
            \<and> json_body response = Inr envelope \<and> status_code (base_resp envelope) \<noteq> 0
            \<and> (status_msg (base_resp envelope) = None
                 \<or> status_msg (base_resp envelope) = Some [])
          \<longrightarrow> fst (fetchMiniMaxUsage t w session)
                = Inl (ErrorObj (t_minimaxApiError t (status_code (base_resp envelope))
                                   ''Unknown error'')))
       \<and> (net_fetch w (quota_request session) = Inl e
          \<longrightarrow> fst (fetchMiniMaxUsage t w session) = Inl e)
       \<and> (net_fetch w (quota_request session) = Inr response \<and> \<not> ok response
            \<and> text_body response = Inl e
          \<longrightarrow> fst (fetchMiniMaxUsage t w session) = Inl e)
       \<and> (net_fetch w (quota_request session) = Inr response \<and> ok response
            \<and> json_body response = Inl e
          \<longrightarrow> fst (fetchMiniMaxUsage t w session) = Inl e)
       \<and> ((\<exists>usage. fst (fetchMiniMaxUsage t w session) = Inr usage)
            \<longleftrightarrow> (\<exists>resp usage. net_fetch w (quota_request session) = Inr resp \<and> ok resp
                   \<and> json_body resp = Inr usage \<and> status_code (base_resp usage) = 0))
       \<and> ((\<exists>r. fst (queryMiniMaxUsage t u w authData) = Inr (Some r) \<and> success r)
            \<longleftrightarrow> (\<exists>usage. fst (fetchMiniMaxUsage t w session) = Inr usage))"
proof -
  note q = query_with_session[OF assms, of t u authData]
  have c1: "net_fetch w (quota_request session) = Inr response \<and> \<not> ok response
            \<and> text_body response = Inr body
          \<longrightarrow> fst (fetchMiniMaxUsage t w session)
                = Inl (ErrorObj (t_minimaxApiError t (status response) body))
              \<and> fst (queryMiniMaxUsage t u w authData)
                = Inr (Some \<lparr> success = False, output = None,
                              error = Some (t_minimaxApiError t (status response) body) \<rparr>)"
    by (simp add: q fetch_not_ok)
  have c2: "net_fetch w (quota_request session) = Inr response \<and> ok response
            \<and> json_body response = Inr envelope \<and> status_code (base_resp envelope) \<noteq> 0
            \<and> status_msg (base_resp envelope) = Some m \<and> m \<noteq> []
          \<longrightarrow> fst (fetchMiniMaxUsage t w session)
                = Inl (ErrorObj (t_minimaxApiError t (status_code (base_resp envelope)) m))
              \<and> fst (queryMiniMaxUsage t u w authData)
                = Inr (Some \<lparr> success = False, output = None,
                              error = Some (t_minimaxApiError t
                                              (status_code (base_resp envelope)) m) \<rparr>)
              \<and> ((\<forall>c x. sublist x (t_minimaxApiError t c x))
                  \<longrightarrow> sublist m (t_minimaxApiError t (status_code (base_resp envelope)) m))"
    by (simp add: q fetch_envelope)
  have c3: "net_fetch w (quota_request session) = Inr response \<and> ok response
            \<and> json_body response = Inr envelope \<and> status_code (base_resp envelope) \<noteq> 0
            \<and> (status_msg (base_resp envelope) = None
                 \<or> status_msg (base_resp envelope) = Some [])
          \<longrightarrow> fst (fetchMiniMaxUsage t w session)
                = Inl (ErrorObj (t_minimaxApiError t (status_code (base_resp envelope))
                                   ''Unknown error''))"
    by (auto simp: fetch_envelope)
  have c4: "net_fetch w (quota_request session) = Inl e
          \<longrightarrow> fst (fetchMiniMaxUsage t w session) = Inl e"
    by (simp add: fetch_transport_throws)
  have c5: "net_fetch w (quota_request session) = Inr response \<and> \<not> ok response
            \<and> text_body response = Inl e
          \<longrightarrow> fst (fetchMiniMaxUsage t w session) = Inl e"
    by (simp add: fetch_not_ok)
  have c6: "net_fetch w (quota_request session) = Inr response \<and> ok response
            \<and> json_body response = Inl e
          \<longrightarrow> fst (fetchMiniMaxUsage t w session) = Inl e"
    by (simp add: fetch_body_throws)
  have c7: "(\<exists>usage. fst (fetchMiniMaxUsage t w session) = Inr usage)
            \<longleftrightarrow> (\<exists>resp usage. net_fetch w (quota_request session) = Inr resp \<and> ok resp
                   \<and> json_body resp = Inr usage \<and> status_code (base_resp usage) = 0)"
    by (auto simp: fetchMiniMaxUsage_def Let_def split: sum.splits if_splits)
  have c8: "(\<exists>r. fst (queryMiniMaxUsage t u w authData) = Inr (Some r) \<and> success r)
            \<longleftrightarrow> (\<exists>usage. fst (fetchMiniMaxUsage t w session) = Inr usage)"
    by (auto simp: q split: sum.splits)
  from c1 c2 c3 c4 c5 c6 c7 c8 show ?thesis by blast
qed

text \<open>
  The scenario of the specification: the envelope reports status code 1004 with the
  message "invalid session", and the error of the result contains that message.
\<close>

theorem fetchMiniMaxUsage_raises_witness:
  "loadMiniMaxSession world_invalid_session = Inr (Some ''abcdefghijkl'')
   \<and> net_fetch world_invalid_session (quota_request ''abcdefghijkl'')
       = Inr response_invalid_session
   \<and> ok response_invalid_session
   \<and> fst (fetchMiniMaxUsage sample_t world_invalid_session ''abcdefghijkl'')
       = Inl (ErrorObj ''MiniMax API error (1004): invalid session'')
   \<and> fst (queryMiniMaxUsage sample_t sample_utils world_invalid_session (None :: unit option))
       = Inr (Some \<lparr> success = False, output = None,
                     error = Some ''MiniMax API error (1004): invalid session'' \<rparr>)
   \<and> sublist ''invalid session'' ''MiniMax API error (1004): invalid session''"
proof -
  let ?envelope = "\<lparr> base_resp = \<lparr> status_code = 1004, status_msg = Some ''invalid session'' \<rparr>,
                     data = None \<rparr>"
  have r: "ok response_invalid_session" "json_body response_invalid_session = Inr ?envelope"
    by (simp_all add: response_invalid_session_def)
  have e: "status_code (base_resp ?envelope) = 1004"
    "status_msg (base_resp ?envelope) = Some ''invalid session''"
    by simp_all
  have m: "t_minimaxApiError sample_t 1004 ''invalid session''
             = ''MiniMax API error (1004): invalid session''"
    by (simp add: sample_t_def sample_toString_values)
  have s: "\<forall>c x. sublist x (t_minimaxApiError sample_t c x)"
    by (simp only: sample_template_embeds simp_thms)
  from fetchMiniMaxUsage_raises[OF world_invalid_session_steps(1),
         of response_invalid_session _ sample_t sample_utils "None :: unit option"
            ?envelope "''invalid session''"]
    world_invalid_session_steps r e m s
  show ?thesis by simp
qed

text \<open>
  C9 as stated fails where the status is a success and the body is not JSON: no
  envelope reports a code, and the fetch raises what \<open>response.json()\<close> threw.
\<close>

theorem unparsable_body_counterexample:
  "net_fetch world_not_json (quota_request ''abcdefghijkl'') = Inr response_not_json
   \<and> ok response_not_json
   \<and> status response_not_json = 200
   \<and> json_body response_not_json = Inl (ErrorObj ''Unexpected token'')
   \<and> fst (fetchMiniMaxUsage sample_t world_not_json ''abcdefghijkl'')
       = Inl (ErrorObj ''Unexpected token'')
   \<and> fst (queryMiniMaxUsage sample_t sample_utils world_not_json (None :: unit option))
       = Inr (Some \<lparr> success = False, output = None, error = Some ''Unexpected token'' \<rparr>)"
proof -
  have "fst (queryMiniMaxUsage sample_t sample_utils world_not_json (None :: unit option))
       = Inr (Some \<lparr> success = False, output = None, error = Some ''Unexpected token'' \<rparr>)"
    by (simp add: query_with_session[OF world_not_json_steps(1)] world_not_json_steps(3))
  moreover have "ok response_not_json" "status response_not_json = 200"
    "json_body response_not_json = Inl (ErrorObj ''Unexpected token'')"
    by (simp_all add: response_not_json_def)
  ultimately show ?thesis
    using world_not_json_steps(2,3) by simp
qed

section \<open>The report\<close>

lemma formatMiniMaxUsage_lines_no_data:
  assumes "data resp = None
           \<or> (\<exists>d. data resp = Some d \<and> total_prompts d = None \<and> remaining_prompts d = None)"
  shows "formatMiniMaxUsage_lines t u w resp session
           = [header_line t u resp session, [], t_noQuotaData t]"
  using assms by (auto simp: formatMiniMaxUsage_lines_def)

lemma formatMiniMaxUsage_lines_numeric:
  assumes "data resp = Some d"
    and "total_prompts d \<noteq> None \<or> remaining_prompts d \<noteq> None"
  shows "formatMiniMaxUsage_lines t u w resp session =
           [header_line t u resp session, [], t_minimaxPromptLimit t,
            createProgressBar u (remainPercent_of u d) @ '' ''
              @ t_remaining t (remainPercent_of u d),
            t_used t @ '': '' @ number_toString w (used_of d) @ '' / ''
              @ number_toString w (total_of d) @ '' prompts'']
           @ (case next_reset_time d of
                None \<Rightarrow> []
              | Some nrt \<Rightarrow>
                  if nrt \<noteq> 0 then
                    [t_resetIn t (formatDuration u (resetSeconds nrt (date_now w)))]
                  else [])
           @ (if usagePercent_of d \<ge> HIGH_USAGE_THRESHOLD then [[], t_limitReached t]
              else [])"
  using assms by (auto simp: formatMiniMaxUsage_lines_def Let_def split: option.splits)

lemma numeric_line3:
  assumes "data resp = Some d"
    and "total_prompts d \<noteq> None \<or> remaining_prompts d \<noteq> None"
  shows "formatMiniMaxUsage_lines t u w resp session ! 3 =
           createProgressBar u (remainPercent_of u d) @ '' ''
             @ t_remaining t (remainPercent_of u d)"
  by (simp add: formatMiniMaxUsage_lines_numeric[OF assms] numeral_3_eq_3)

lemma usagePercent_explicit:
  "usage_percentage d = Some p \<Longrightarrow> usagePercent_of d = p"
  by (simp add: usagePercent_of_def)

lemma five_lines_no_blank_end:
  assumes "b \<noteq> []"
  shows "[h, e, p, b, x] @ [] \<noteq> pre @ [[], z]"
proof
  assume "[h, e, p, b, x] @ [] = pre @ [[], z]"
  then have "rev ([h, e, p, b, x] @ []) = rev (pre @ [[], z])" by (rule arg_cong)
  with assms show False by simp
qed

lemma six_lines_no_blank_end:
  assumes "x \<noteq> []"
  shows "[h, e, p, b, x] @ [r] \<noteq> pre @ [[], z]"
proof
  assume "[h, e, p, b, x] @ [r] = pre @ [[], z]"
  then have "rev ([h, e, p, b, x] @ [r]) = rev (pre @ [[], z])" by (rule arg_cong)
  with assms show False by simp
qed

text \<open>The sample collaborators on the values of the examples.\<close>

lemma sample_bar_values:
  "createProgressBar sample_utils 100 = ''##########''"
  "createProgressBar sample_utils 15 = ''#---------''"
  "createProgressBar sample_utils 60 = ''######----''"
  by (simp_all add: sample_utils_def numeral_eq_Suc)

lemma sample_header:
  "header_line sample_t sample_utils (sample_resp d) ''abcdefghijkl''
     = ''Account:        abcd**** ('' @ planLabel_of d @ '')''"
  by (simp add: header_line_def sample_t_def sample_utils_def sample_resp_def)

lemma sample_t_fields:
  "t_noQuotaData sample_t = ''No quota data''"
  "t_minimaxPromptLimit sample_t = ''Prompt limit''"
  "t_used sample_t = ''Used''"
  "t_limitReached sample_t = ''High usage''"
  "t_remaining sample_t p = ''Remaining '' @ sample_toString p @ ''%''"
  "t_resetIn sample_t x = ''Resets in '' @ x"
  by (simp_all add: sample_t_def)

lemma sample_utils_fields:
  "calcRemainPercent sample_utils = calcRemainPercent_spec"
  "formatDuration sample_utils s = sample_toString s @ ''s''"
  by (simp_all add: sample_utils_def)

lemma world_idle_fields:
  "date_now world_idle = 1700000000000"
  "number_toString world_idle = sample_toString"
  by (simp_all add: world_idle_def sample_world_fields)

lemma sample_resp_data: "data (sample_resp d) = d"
  by (simp add: sample_resp_def)

lemma resetSeconds_sample: "resetSeconds 1700003600000 1700000000000 = 3600"
  by (simp add: resetSeconds_def)

lemma data_high_usage_values:
  "total_prompts data_high_usage = Some 100"
  "usage_percentage data_high_usage = None"
  "next_reset_time data_high_usage = Some 1700003600000"
  "total_of data_high_usage = 100"
  "used_of data_high_usage = 85"
  "usagePercent_of data_high_usage = 85"
  "remainPercent_of sample_utils data_high_usage = 15"
  "planLabel_of (Some data_high_usage) = ''Coding Plan - Plus''"
  by (simp_all add: data_high_usage_def total_of_def used_of_def usagePercent_of_def
        remainPercent_of_def planLabel_of_def sample_utils_fields calcRemainPercent_spec_def)

lemma data_explicit_percentage_values:
  "total_prompts data_explicit_percentage = Some 100"
  "usage_percentage data_explicit_percentage = Some 40"
  "next_reset_time data_explicit_percentage = None"
  "total_of data_explicit_percentage = 100"
  "used_of data_explicit_percentage = 85"
  "usagePercent_of data_explicit_percentage = 40"
  "remainPercent_of sample_utils data_explicit_percentage = 60"
  "planLabel_of (Some data_explicit_percentage) = ''Coding Plan''"
  by (simp_all add: data_explicit_percentage_def total_of_def used_of_def usagePercent_of_def
        remainPercent_of_def planLabel_of_def sample_utils_fields calcRemainPercent_spec_def)

lemma data_remaining_only_values:
  "total_prompts data_remaining_only = None"
  "used_prompts data_remaining_only = None"
  "remaining_prompts data_remaining_only = Some 5"
  "usage_percentage data_remaining_only = None"
  "next_reset_time data_remaining_only = None"
  "total_of data_remaining_only = 0"
  "used_of data_remaining_only = - 5"
  "usagePercent_of data_remaining_only = 0"
  "remainPercent_of sample_utils data_remaining_only = 100"
  "planLabel_of (Some data_remaining_only) = ''Coding Plan''"
  by (simp_all add: data_remaining_only_def sample_data_def total_of_def used_of_def
        usagePercent_of_def remainPercent_of_def planLabel_of_def sample_utils_fields
        calcRemainPercent_spec_def)

lemma high_usage_lines:
  "formatMiniMaxUsage_lines sample_t sample_utils world_idle
     (sample_resp (Some data_high_usage)) ''abcdefghijkl''
   = [''Account:        abcd**** (Coding Plan - Plus)'', [], ''Prompt limit'',
      ''#--------- Remaining 15%'', ''Used: 85 / 100 prompts'', ''Resets in 3600s'',
      [], ''High usage'']"
proof -
  have g: "total_prompts data_high_usage \<noteq> None \<or> remaining_prompts data_high_usage \<noteq> None"
    by (simp add: data_high_usage_values)
  show ?thesis
    by (simp add: formatMiniMaxUsage_lines_numeric[OF sample_resp_data g] sample_header
          data_high_usage_values sample_t_fields sample_utils_fields world_idle_fields
          sample_bar_values sample_toString_values resetSeconds_sample
          HIGH_USAGE_THRESHOLD_def)
qed

lemma explicit_percentage_lines:
  "formatMiniMaxUsage_lines sample_t sample_utils world_idle
     (sample_resp (Some data_explicit_percentage)) ''abcdefghijkl''
   = [''Account:        abcd**** (Coding Plan)'', [], ''Prompt limit'',
      ''######---- Remaining 60%'', ''Used: 85 / 100 prompts'']"
proof -
  have g: "total_prompts data_explicit_percentage \<noteq> None
           \<or> remaining_prompts data_explicit_percentage \<noteq> None"
    by (simp add: data_explicit_percentage_values)
  show ?thesis
    by (simp add: formatMiniMaxUsage_lines_numeric[OF sample_resp_data g] sample_header
          data_explicit_percentage_values sample_t_fields sample_utils_fields
          world_idle_fields sample_bar_values sample_toString_values
          HIGH_USAGE_THRESHOLD_def)
qed

subsection \<open>The report without quota data\<close>

text \<open>
  C1, as the code has it. The report is exactly the title line, a blank line and the
  "no quota data" line if and only if the envelope has no data or its data has neither
  \<open>total_prompts\<close> nor \<open>remaining_prompts\<close>, whatever \<open>usage_percentage\<close> and
  \<open>used_prompts\<close> hold; the text returned is then those three lines joined by newlines.
\<close>

theorem no_quota_report_iff:
  "(formatMiniMaxUsage_lines t u w resp session
       = [header_line t u resp session, [], t_noQuotaData t]
     \<longleftrightarrow> (data resp = None
          \<or> (\<exists>d. data resp = Some d \<and> total_prompts d = None
                \<and> remaining_prompts d = None)))
   \<and> (formatMiniMaxUsage_lines t u w resp session
         = [header_line t u resp session, [], t_noQuotaData t]
       \<longrightarrow> formatMiniMaxUsage t u w resp session
             = header_line t u resp session @ newline @ newline @ t_noQuotaData t)"
proof -
  let ?three = "[header_line t u resp session, [], t_noQuotaData t]"
  let ?guard = "data resp = None
          \<or> (\<exists>d. data resp = Some d \<and> total_prompts d = None \<and> remaining_prompts d = None)"
  have "formatMiniMaxUsage_lines t u w resp session = ?three \<longleftrightarrow> ?guard"
  proof
    assume a: "formatMiniMaxUsage_lines t u w resp session = ?three"
    show ?guard
    proof (rule ccontr)
      assume n: "\<not> ?guard"
      then obtain d where d: "data resp = Some d" by auto
      with n have "total_prompts d \<noteq> None \<or> remaining_prompts d \<noteq> None" by auto
      from formatMiniMaxUsage_lines_numeric[OF d this, of t u w session]
      have "length (formatMiniMaxUsage_lines t u w resp session) \<ge> 5" by simp
      with a show False by simp
    qed
  next
    assume ?guard
    then show "formatMiniMaxUsage_lines t u w resp session = ?three"
      by (rule formatMiniMaxUsage_lines_no_data)
  qed
  moreover have "formatMiniMaxUsage_lines t u w resp session = ?three
       \<longrightarrow> formatMiniMaxUsage t u w resp session
             = header_line t u resp session @ newline @ newline @ t_noQuotaData t"
    by (simp add: formatMiniMaxUsage_def)
  ultimately show ?thesis by blast
qed

theorem no_quota_report_witness:
  "data (sample_resp None) = None
   \<and> formatMiniMaxUsage_lines sample_t sample_utils world_idle (sample_resp None)
       ''abcdefghijkl''
       = [''Account:        abcd**** (Coding Plan)'', [], ''No quota data'']
   \<and> formatMiniMaxUsage sample_t sample_utils world_idle (sample_resp None) ''abcdefghijkl''
       = ''Account:        abcd**** (Coding Plan)'' @ newline @ newline @ ''No quota data''"
proof -
  have d: "data (sample_resp None) = None" by (rule sample_resp_data)
  have h: "header_line sample_t sample_utils (sample_resp None) ''abcdefghijkl''
             = ''Account:        abcd**** (Coding Plan)''"
    by (simp add: sample_header planLabel_of_def)
  from no_quota_report_iff[of sample_t sample_utils world_idle "sample_resp None"
         "''abcdefghijkl''"] d
  show ?thesis by (simp add: h sample_t_fields)
qed

text \<open>
  C1 as stated fails on a payload that holds only \<open>remaining_prompts\<close>: it has no
  explicit percentage and no counts from which the specification derives one, yet the
  report carries a progress bar and a "used" line, computed from a total of 0.
\<close>

theorem remaining_only_counterexample:
  "usage_percentage data_remaining_only = None
   \<and> \<not> spec_percentage_derivable data_remaining_only
   \<and> formatMiniMaxUsage_lines sample_t sample_utils world_idle
        (sample_resp (Some data_remaining_only)) ''abcdefghijkl''
       = [''Account:        abcd**** (Coding Plan)'', [], ''Prompt limit'',
          ''########## Remaining 100%'', ''Used: -5 / 0 prompts'']"
proof -
  have g: "total_prompts data_remaining_only \<noteq> None
           \<or> remaining_prompts data_remaining_only \<noteq> None"
    by (simp add: data_remaining_only_values)
  have "formatMiniMaxUsage_lines sample_t sample_utils world_idle
        (sample_resp (Some data_remaining_only)) ''abcdefghijkl''
       = [''Account:        abcd**** (Coding Plan)'', [], ''Prompt limit'',
          ''########## Remaining 100%'', ''Used: -5 / 0 prompts'']"
    by (simp add: formatMiniMaxUsage_lines_numeric[OF sample_resp_data g] sample_header
          data_remaining_only_values sample_t_fields world_idle_fields
          sample_bar_values sample_toString_values HIGH_USAGE_THRESHOLD_def)
  then show ?thesis
    by (simp add: spec_percentage_derivable_def data_remaining_only_values)
qed

subsection \<open>The remaining percentage\<close>

text \<open>
  C2, as the code has it. When the payload has \<open>total_prompts\<close> or
  \<open>remaining_prompts\<close> and the provider supplies \<open>usage_percentage\<close>, the remaining
  percentage of the report is \<open>calcRemainPercent\<close> of that percentage, whatever the
  counts are: \<open>100 - p\<close> clamped to \<open>0..100\<close> with \<open>calcRemainPercent\<close> as specified,
  so \<open>100 - p\<close> for \<open>p\<close> from 0 to 100. It is what the bar and the "remaining" label
  of the fourth line are rendered from, and the text returned is the lines joined by
  newlines.
\<close>

theorem explicit_percentage_precedence:
  assumes "data resp = Some d"
    and "total_prompts d \<noteq> None \<or> remaining_prompts d \<noteq> None"
    and "usage_percentage d = Some p"
    and "calcRemainPercent u = calcRemainPercent_spec"
  shows "remainPercent_of u d = max 0 (min 100 (100 - p))
       \<and> (0 \<le> p \<and> p \<le> 100 \<longrightarrow> remainPercent_of u d = 100 - p)
       \<and> remainPercent_of u
           (d \<lparr> total_prompts := a, used_prompts := b, remaining_prompts := c \<rparr>)
           = remainPercent_of u d
       \<and> formatMiniMaxUsage_lines t u w resp session ! 3 =
           createProgressBar u (remainPercent_of u d) @ '' ''
             @ t_remaining t (remainPercent_of u d)
       \<and> formatMiniMaxUsage t u w resp session
           = join newline (formatMiniMaxUsage_lines t u w resp session)"
proof -
  have j: "formatMiniMaxUsage t u w resp session
           = join newline (formatMiniMaxUsage_lines t u w resp session)"
    by (rule formatMiniMaxUsage_def)
  have r: "remainPercent_of u d = max 0 (min 100 (100 - p))"
    using assms(3,4)
    by (simp add: remainPercent_of_def usagePercent_explicit calcRemainPercent_spec_def)
  have i: "remainPercent_of u
             (d \<lparr> total_prompts := a, used_prompts := b, remaining_prompts := c \<rparr>)
           = remainPercent_of u d"
    using assms(3) by (simp add: remainPercent_of_def usagePercent_of_def)
  from r i j numeric_line3[OF assms(1,2)] show ?thesis by auto
qed

text \<open>Counts that give 85 percent used, and an explicit 40 percent: the report shows 60.\<close>

theorem explicit_percentage_precedence_witness:
  "data (sample_resp (Some data_explicit_percentage)) = Some data_explicit_percentage
   \<and> total_prompts data_explicit_percentage = Some 100
   \<and> usage_percentage data_explicit_percentage = Some 40
   \<and> calcRemainPercent sample_utils = calcRemainPercent_spec
   \<and> used_of data_explicit_percentage / total_of data_explicit_percentage * 100 = 85
   \<and> remainPercent_of sample_utils data_explicit_percentage = 60
   \<and> formatMiniMaxUsage_lines sample_t sample_utils world_idle
        (sample_resp (Some data_explicit_percentage)) ''abcdefghijkl'' ! 3
       = ''######---- Remaining 60%''"
proof -
  have g: "total_prompts data_explicit_percentage \<noteq> None
           \<or> remaining_prompts data_explicit_percentage \<noteq> None"
    by (simp add: data_explicit_percentage_values)
  from explicit_percentage_precedence[OF sample_resp_data g
         data_explicit_percentage_values(2) sample_utils_fields(1),
         of None None None sample_t world_idle "''abcdefghijkl''"]
  show ?thesis
    by (simp add: sample_resp_data data_explicit_percentage_values sample_utils_fields
          sample_t_fields sample_bar_values sample_toString_values)
qed

text \<open>
  C2 as stated fails on a payload that holds only an explicit \<open>usage_percentage\<close> of
  50: the guard of line 151 looks at the counts alone, and the report is the "no quota
  data" one, with no remaining percentage in it.
\<close>

theorem percentage_only_counterexample:
  "usage_percentage data_percentage_only = Some 50
   \<and> formatMiniMaxUsage_lines sample_t sample_utils world_idle
        (sample_resp (Some data_percentage_only)) ''abcdefghijkl''
       = [''Account:        abcd**** (Coding Plan)'', [], ''No quota data'']"
proof -
  have v: "usage_percentage data_percentage_only = Some 50"
    "total_prompts data_percentage_only = None"
    "remaining_prompts data_percentage_only = None"
    "planLabel_of (Some data_percentage_only) = ''Coding Plan''"
    by (simp_all add: data_percentage_only_def sample_data_def planLabel_of_def)
  have "data (sample_resp (Some data_percentage_only)) = None
        \<or> (\<exists>d. data (sample_resp (Some data_percentage_only)) = Some d
              \<and> total_prompts d = None \<and> remaining_prompts d = None)"
    by (simp add: sample_resp_data v)
  from formatMiniMaxUsage_lines_no_data[OF this, of sample_t sample_utils world_idle
         "''abcdefghijkl''"] v
  show ?thesis by (simp add: sample_header sample_t_fields)
qed

subsection \<open>The high-usage warning\<close>

text \<open>
  C6. On the numeric path (the payload has \<open>total_prompts\<close> or \<open>remaining_prompts\<close>),
  the report ends with the warning block, a blank line and the limit-reached line, if
  and only if the computed usage percentage is at least the threshold, which is 80;
  the text returned is the lines joined by newlines.
\<close>

theorem high_usage_warning_iff:
  assumes "data resp = Some d"
    and "total_prompts d \<noteq> None \<or> remaining_prompts d \<noteq> None"
  shows "HIGH_USAGE_THRESHOLD = 80
       \<and> ((\<exists>pre. formatMiniMaxUsage_lines t u w resp session = pre @ [[], t_limitReached t])
            \<longleftrightarrow> usagePercent_of d \<ge> HIGH_USAGE_THRESHOLD)
       \<and> formatMiniMaxUsage t u w resp session
           = join newline (formatMiniMaxUsage_lines t u w resp session)"
proof -
  have j: "formatMiniMaxUsage t u w resp session
           = join newline (formatMiniMaxUsage_lines t u w resp session)"
    by (rule formatMiniMaxUsage_def)
  let ?L = "formatMiniMaxUsage_lines t u w resp session"
  let ?bar = "createProgressBar u (remainPercent_of u d) @ '' ''
                @ t_remaining t (remainPercent_of u d)"
  let ?used = "t_used t @ '': '' @ number_toString w (used_of d) @ '' / ''
              @ number_toString w (total_of d) @ '' prompts''"
  let ?five = "[header_line t u resp session, [], t_minimaxPromptLimit t, ?bar, ?used]"
  let ?reset = "(case next_reset_time d of
                None \<Rightarrow> []
              | Some nrt \<Rightarrow>
                  if nrt \<noteq> 0 then
                    [t_resetIn t (formatDuration u (resetSeconds nrt (date_now w)))]
                  else [])"
  have L: "?L = ?five @ ?reset
             @ (if usagePercent_of d \<ge> HIGH_USAGE_THRESHOLD then [[], t_limitReached t]
                else [])"
    by (rule formatMiniMaxUsage_lines_numeric[OF assms])
  have bar: "?bar \<noteq> []" by simp
  have used: "?used \<noteq> []" by simp
  have reset: "?reset = [] \<or> (\<exists>r. ?reset = [r])"
    by (simp split: option.splits)
  have nb: "?five @ ?reset \<noteq> pre @ [[], t_limitReached t]" for pre
    using reset
  proof
    assume e: "?reset = []"
    show ?thesis unfolding e by (rule five_lines_no_blank_end[OF bar])
  next
    assume "\<exists>r. ?reset = [r]"
    then obtain r where e: "?reset = [r]" by blast
    show ?thesis unfolding e by (rule six_lines_no_blank_end[OF used])
  qed
  have thr: "HIGH_USAGE_THRESHOLD = 80" by (simp add: HIGH_USAGE_THRESHOLD_def)
  show ?thesis
  proof (cases "usagePercent_of d \<ge> HIGH_USAGE_THRESHOLD")
    case True
    have "?L = (?five @ ?reset) @ [[], t_limitReached t]"
      unfolding L using True by (simp only: if_True append_assoc)
    then have "\<exists>pre. ?L = pre @ [[], t_limitReached t]" by (rule exI)
    with True thr j show ?thesis by blast
  next
    case False
    have e: "?L = ?five @ ?reset"
      unfolding L using False by (simp only: if_False append_Nil2)
    have "\<not> (\<exists>pre. ?L = pre @ [[], t_limitReached t])"
    proof
      assume "\<exists>pre. ?L = pre @ [[], t_limitReached t]"
      then obtain pre where "?L = pre @ [[], t_limitReached t]" by blast
      then have "?five @ ?reset = pre @ [[], t_limitReached t]" unfolding e .
      with nb[of pre] show False by (rule notE)
    qed
    with False thr j show ?thesis by blast
  qed
qed

text \<open>At 85 percent used the report ends with the warning; at 40 percent it does not.\<close>

theorem high_usage_warning_witness:
  "data (sample_resp (Some data_high_usage)) = Some data_high_usage
   \<and> total_prompts data_high_usage = Some 100
   \<and> usagePercent_of data_high_usage = 85
   \<and> (\<exists>pre. formatMiniMaxUsage_lines sample_t sample_utils world_idle
               (sample_resp (Some data_high_usage)) ''abcdefghijkl''
             = pre @ [[], ''High usage''])
   \<and> total_prompts data_explicit_percentage = Some 100
   \<and> usagePercent_of data_explicit_percentage = 40
   \<and> \<not> (\<exists>pre. formatMiniMaxUsage_lines sample_t sample_utils world_idle
               (sample_resp (Some data_explicit_percentage)) ''abcdefghijkl''
             = pre @ [[], ''High usage''])"
proof -
  have g1: "total_prompts data_high_usage \<noteq> None \<or> remaining_prompts data_high_usage \<noteq> None"
    by (simp add: data_high_usage_values)
  have g2: "total_prompts data_explicit_percentage \<noteq> None
            \<or> remaining_prompts data_explicit_percentage \<noteq> None"
    by (simp add: data_explicit_percentage_values)
  from high_usage_warning_iff[OF sample_resp_data g1, of sample_t sample_utils world_idle
         "''abcdefghijkl''"]
    high_usage_warning_iff[OF sample_resp_data g2, of sample_t sample_utils world_idle
         "''abcdefghijkl''"]
  show ?thesis
    by (simp add: sample_resp_data data_high_usage_values data_explicit_percentage_values
          sample_t_fields)
qed

subsection \<open>The reset countdown\<close>

text \<open>
  C7. The reset countdown in seconds is \<open>max(0, floor((next_reset_time - now) / 1000))\<close>
  for every reset time and clock value: it is never negative, and it is 0 whenever the
  reset time is not after the clock. It is the value that the reset line of the report,
  present when \<open>next_reset_time\<close> is set and not 0, is rendered from; the text returned
  is the lines joined by newlines.
\<close>

theorem reset_countdown_nonnegative:
  "0 \<le> resetSeconds nrt now
   \<and> resetSeconds nrt now = max 0 (of_int \<lfloor>(nrt - now) / 1000\<rfloor>)
   \<and> (nrt \<le> now \<longrightarrow> resetSeconds nrt now = 0)
   \<and> (data resp = Some d \<and> (total_prompts d \<noteq> None \<or> remaining_prompts d \<noteq> None)
        \<and> next_reset_time d = Some nrt \<and> nrt \<noteq> 0
       \<longrightarrow> formatMiniMaxUsage_lines t u w resp session ! 5
             = t_resetIn t (formatDuration u (resetSeconds nrt (date_now w))))
   \<and> formatMiniMaxUsage t u w resp session
           = join newline (formatMiniMaxUsage_lines t u w resp session)"
proof -
  have j: "formatMiniMaxUsage t u w resp session
           = join newline (formatMiniMaxUsage_lines t u w resp session)"
    by (rule formatMiniMaxUsage_def)
  have a: "0 \<le> resetSeconds nrt now" by (simp add: resetSeconds_def)
  have b: "nrt \<le> now \<longrightarrow> resetSeconds nrt now = 0"
  proof
    assume "nrt \<le> now"
    then have "(nrt - now) / 1000 \<le> 0" by simp
    then have "\<lfloor>(nrt - now) / 1000\<rfloor> \<le> 0" by (simp add: floor_le_zero)
    then have "(of_int \<lfloor>(nrt - now) / 1000\<rfloor> :: real) \<le> 0" by simp
    then show "resetSeconds nrt now = 0" unfolding resetSeconds_def by (rule max_absorb1)
  qed
  have c: "data resp = Some d \<and> (total_prompts d \<noteq> None \<or> remaining_prompts d \<noteq> None)
        \<and> next_reset_time d = Some nrt \<and> nrt \<noteq> 0
       \<longrightarrow> formatMiniMaxUsage_lines t u w resp session ! 5
             = t_resetIn t (formatDuration u (resetSeconds nrt (date_now w)))"
  proof
    assume h: "data resp = Some d \<and> (total_prompts d \<noteq> None \<or> remaining_prompts d \<noteq> None)
        \<and> next_reset_time d = Some nrt \<and> nrt \<noteq> 0"
    then have d: "data resp = Some d"
      and g: "total_prompts d \<noteq> None \<or> remaining_prompts d \<noteq> None"
      by simp_all
    show "formatMiniMaxUsage_lines t u w resp session ! 5
             = t_resetIn t (formatDuration u (resetSeconds nrt (date_now w)))"
      using h by (simp add: formatMiniMaxUsage_lines_numeric[OF d g] eval_nat_numeral)
  qed
  have e: "resetSeconds nrt now = max 0 (of_int \<lfloor>(nrt - now) / 1000\<rfloor>)"
    by (simp add: resetSeconds_def)
  from a e b c j show ?thesis by blast
qed

text \<open>
  A reset time one hour after the clock gives 3600 seconds and the line "Resets in
  3600s"; a reset time one hour before the clock gives 0.
\<close>

theorem reset_countdown_witness:
  "(1700000000000 :: number) \<le> 1700003600000
   \<and> resetSeconds 1700000000000 1700003600000 = 0
   \<and> resetSeconds 1700003600000 1700000000000 = 3600
   \<and> data (sample_resp (Some data_high_usage)) = Some data_high_usage
   \<and> total_prompts data_high_usage = Some 100
   \<and> next_reset_time data_high_usage = Some 1700003600000
   \<and> date_now world_idle = 1700000000000
   \<and> formatMiniMaxUsage_lines sample_t sample_utils world_idle
        (sample_resp (Some data_high_usage)) ''abcdefghijkl'' ! 5
       = ''Resets in 3600s''"
proof -
  from reset_countdown_nonnegative[of 1700000000000 1700003600000]
  have z: "resetSeconds 1700000000000 1700003600000 = 0" by simp
  from reset_countdown_nonnegative[of 1700003600000 1700000000000
         "sample_resp (Some data_high_usage)" data_high_usage sample_t sample_utils world_idle
         "''abcdefghijkl''"]
  have "formatMiniMaxUsage_lines sample_t sample_utils world_idle
        (sample_resp (Some data_high_usage)) ''abcdefghijkl'' ! 5
       = t_resetIn sample_t (formatDuration sample_utils
           (resetSeconds 1700003600000 (date_now world_idle)))"
    by (simp add: sample_resp_data data_high_usage_values)
  then show ?thesis
    by (simp add: z sample_resp_data data_high_usage_values world_idle_fields
          resetSeconds_sample sample_t_fields sample_utils_fields sample_toString_values)
qed

end
